theory Spec2Isabelle
  imports Main
begin

section \<open>Values of provider.go\<close>

text \<open>
  \<^verbatim>\<open>Provider\<close> is an interface; the source holds no implementation of it. An interface
  value is nil (\<open>None\<close>) or a concrete provider, of which the registry uses two things:
  which object it is (\<open>ident\<close>) and the string its \<^verbatim>\<open>Name()\<close> method reports (\<open>key\<close>).
\<close>

datatype impl = Impl (ident: nat) (key: string)

type_synonym Provider = "impl option"

text \<open>
  Go's \<^verbatim>\<open>error\<close>: a value carrying a message; a nil error is \<open>None\<close> of
  \<open>error option\<close>.
\<close>

datatype error = Error (message: string)

text \<open>The two run-time panics the registry code can raise.\<close>

datatype panic = NilDereference | NilMapAssignment

text \<open>\<^verbatim>\<open>const NoAuthUrlErrorMessage = "an AuthURL has not been set"\<close>\<close>

definition NoAuthUrlErrorMessage :: string where
  "NoAuthUrlErrorMessage = ''an AuthURL has not been set''"

section \<open>The store\<close>

text \<open>
  \<^verbatim>\<open>type Providers map[string]Provider\<close>: a value of this type is nil or a reference to
  a map object, and copies of a reference share the object. \<open>heap\<close> gives the contents
  of every map object, \<open>cells\<close> what every variable of type \<^verbatim>\<open>Providers\<close> holds
  (\<open>None\<close> is the nil map), \<open>fresh\<close> the address the next map literal gets.
\<close>

type_synonym mref = nat

type_synonym vref = nat

record state =
  cells :: "vref \<Rightarrow> mref option"
  heap :: "mref \<Rightarrow> (string \<rightharpoonup> Provider)"
  fresh :: mref

text \<open>A call returns, or panics; either way it leaves a store behind.\<close>

datatype outcome = Returns state | Panics panic state

fun after :: "outcome \<Rightarrow> state" where
  "after (Returns s) = s"
| "after (Panics e s) = s"

text \<open>One call after another: a panic ends the sequence.\<close>

fun and_then :: "outcome \<Rightarrow> (state \<Rightarrow> outcome) \<Rightarrow> outcome" where
  "and_then (Returns s) f = f s"
| "and_then (Panics e s) f = Panics e s"

text \<open>The composite literal \<^verbatim>\<open>Providers{}\<close>: a new, empty map object.\<close>

definition make :: "state \<Rightarrow> mref \<times> state" where
  "make s = (fresh s, s\<lparr>heap := (heap s)(fresh s := Map.empty), fresh := Suc (fresh s)\<rparr>)"

text \<open>
  \<^verbatim>\<open>m[k]\<close> read: the zero value (the nil interface) for a missing key, and for
  every key of the nil map.
\<close>

fun index :: "mref option \<Rightarrow> string \<Rightarrow> state \<Rightarrow> Provider" where
  "index None k s = None"
| "index (Some m) k s = (case heap s m k of None \<Rightarrow> None | Some v \<Rightarrow> v)"

text \<open>\<^verbatim>\<open>m[k] = v\<close>: panics on the nil map.\<close>

fun assign :: "mref option \<Rightarrow> string \<Rightarrow> Provider \<Rightarrow> state \<Rightarrow> outcome" where
  "assign None k v s = Panics NilMapAssignment s"
| "assign (Some m) k v s = Returns (s\<lparr>heap := (heap s)(m := (heap s m)(k \<mapsto> v))\<rparr>)"

text \<open>\<^verbatim>\<open>provider.Name()\<close>: a method call on the nil interface panics.\<close>

fun Name :: "Provider \<Rightarrow> panic + string" where
  "Name None = Inl NilDereference"
| "Name (Some v) = Inr (key v)"

section \<open>The registry\<close>

text \<open>\<^verbatim>\<open>var providers = Providers{}\<close>: the package-level variable and the initial store.\<close>

definition providers :: vref where
  "providers = 0"

definition init :: state where
  "init = (let (m, s) = make \<lparr>cells = (\<lambda>_. None), heap = (\<lambda>_. Map.empty), fresh = 0\<rparr>
           in s\<lparr>cells := (cells s)(providers \<mapsto> m)\<rparr>)"

text \<open>
  \<^verbatim>\<open>func (p Providers) Use(viders ...Provider)\<close>:
  \<^verbatim>\<open>for _, provider := range viders { p[provider.Name()] = provider }\<close>.
  The index operand \<^verbatim>\<open>provider.Name()\<close> is evaluated before the assignment is carried out.
\<close>

fun Use :: "mref option \<Rightarrow> Provider list \<Rightarrow> state \<Rightarrow> outcome" where
  "Use p [] s = Returns s"
| "Use p (provider # viders) s =
     (case Name provider of
        Inl e \<Rightarrow> Panics e s
      | Inr k \<Rightarrow>
          (case assign p k provider s of
             Panics e s' \<Rightarrow> Panics e s'
           | Returns s' \<Rightarrow> Use p viders s'))"

text \<open>
  \<^verbatim>\<open>func (p Providers) Get(name string) (Provider, error)\<close>. The body reads
  \<^verbatim>\<open>provider := providers[name]\<close>: the map of the package-level variable, whatever the
  receiver \<open>p\<close> is.
\<close>

definition Get :: "mref option \<Rightarrow> string \<Rightarrow> state \<Rightarrow> Provider \<times> error option" where
  "Get p name s =
     (let provider = index (cells s providers) name s in
      if provider = None
      then (None, Some (Error (''no provider for '' @ name @ '' exists'')))
      else (provider, None))"

text \<open>
  \<^verbatim>\<open>func (p *Providers) Clear() { *p = Providers{} }\<close>: the receiver points to a variable,
  which gets a new empty map; the map object it held before is not touched.
\<close>

fun Clear :: "vref option \<Rightarrow> state \<Rightarrow> outcome" where
  "Clear None s = Panics NilDereference s"
| "Clear (Some v) s = (let (m, s') = make s in Returns (s'\<lparr>cells := (cells s')(v \<mapsto> m)\<rparr>))"

section \<open>Package-level functions\<close>

definition UseProviders :: "Provider list \<Rightarrow> state \<Rightarrow> outcome" where
  "UseProviders viders s = Use (cells s providers) viders s"

definition GetProviders :: "state \<Rightarrow> mref option" where
  "GetProviders s = cells s providers"

definition GetProvider :: "string \<Rightarrow> state \<Rightarrow> Provider \<times> error option" where
  "GetProvider name s = Get (cells s providers) name s"

definition ClearProviders :: "state \<Rightarrow> outcome" where
  "ClearProviders s = Clear (Some providers) s"

section \<open>Client helpers\<close>

text \<open>
  \<^verbatim>\<open>*http.Client\<close> is nil or the address of a client. \<^verbatim>\<open>http.DefaultClient\<close> is a
  variable of package net/http; the function reads it, so it is an argument here.
\<close>

type_synonym client = "nat option"

definition HTTPClientWithFallBack :: "client \<Rightarrow> client \<Rightarrow> client" where
  "HTTPClientWithFallBack DefaultClient h = (if h \<noteq> None then h else DefaultClient)"

section \<open>Example programs\<close>

text \<open>Whether a call returned.\<close>

fun returns :: "outcome \<Rightarrow> bool" where
  "returns (Returns s) = True"
| "returns (Panics e s) = False"

text \<open>Three providers; \<open>github\<close> and \<open>github2\<close> are two objects reporting one name.\<close>

definition github :: impl where
  "github = Impl 1 ''github''"

definition google :: impl where
  "google = Impl 2 ''google''"

definition github2 :: impl where
  "github2 = Impl 3 ''github''"

text \<open>\<^verbatim>\<open>p := Providers{}\<close> in the initial store: a registry of the caller's own.\<close>

definition local_registry :: mref where
  "local_registry = fst (make init)"

definition with_local_registry :: state where
  "with_local_registry = snd (make init)"

text \<open>
  \<^verbatim>\<open>UseProviders(github); p.Use(github); p.Use(github2)\<close> with \<open>p\<close> the caller's
  registry.
\<close>

definition registered_twice :: outcome where
  "registered_twice =
     and_then (and_then (UseProviders [Some github] with_local_registry)
       (Use (Some local_registry) [Some github]))
       (Use (Some local_registry) [Some github2])"

text \<open>\<^verbatim>\<open>UseProviders(github); var p Providers; p.Clear()\<close>\<close>

definition local_variable :: vref where
  "local_variable = 1"

definition cleared_local :: outcome where
  "cleared_local = and_then (UseProviders [Some github] init) (Clear (Some local_variable))"

section \<open>The error sentinel and the client helper\<close>

text \<open>
  C8. The constant \<^verbatim>\<open>NoAuthUrlErrorMessage\<close> is the 27-character string
  "an AuthURL has not been set", character for character.
\<close>

theorem NoAuthUrlErrorMessage_verbatim:
  "NoAuthUrlErrorMessage =
     [CHR ''a'', CHR ''n'', CHR '' '', CHR ''A'', CHR ''u'', CHR ''t'', CHR ''h'', CHR ''U'',
      CHR ''R'', CHR ''L'', CHR '' '', CHR ''h'', CHR ''a'', CHR ''s'', CHR '' '', CHR ''n'',
      CHR ''o'', CHR ''t'', CHR '' '', CHR ''b'', CHR ''e'', CHR ''e'', CHR ''n'', CHR '' '',
      CHR ''s'', CHR ''e'', CHR ''t'']
   \<and> length NoAuthUrlErrorMessage = 27"
  by (simp add: NoAuthUrlErrorMessage_def)

text \<open>
  C7. \<^verbatim>\<open>HTTPClientWithFallBack(nil)\<close> is \<^verbatim>\<open>http.DefaultClient\<close>, and a client that is
  not nil comes back unchanged. The function takes no store and returns none: it has no
  effect and no error result.
\<close>

theorem HTTPClientWithFallBack_fallback:
  "HTTPClientWithFallBack DefaultClient None = DefaultClient
   \<and> HTTPClientWithFallBack DefaultClient (Some c) = Some c"
  by (simp add: HTTPClientWithFallBack_def)

section \<open>Lookups\<close>

text \<open>
  C5. \<^verbatim>\<open>Get\<close> never returns a nil provider with a nil error: it returns a provider that
  is not nil and a nil error, or a nil provider and the error whose message is
  "no provider for NAME exists" with the name asked for.
\<close>

theorem Get_provider_or_error:
  "Get p n s \<noteq> (None, None)
   \<and> ((\<exists>v. Get p n s = (Some v, None))
      \<or> Get p n s = (None, Some (Error (''no provider for '' @ n @ '' exists''))))"
  by (cases "index (cells s providers) n s") (simp_all add: Get_def)

section \<open>What \<open>Use\<close> writes\<close>

text \<open>
  \<open>Use\<close> assigns no variable and makes no map: only the contents of map objects change,
  whether the call returns or panics part of the way.
\<close>

lemma Use_cells: "cells (after (Use p viders s)) = cells s"
proof (induction viders arbitrary: s)
  case Nil
  show ?case by simp
next
  case (Cons provider viders)
  show ?case
  proof (cases provider)
    case None
    then show ?thesis by simp
  next
    case (Some v)
    then show ?thesis using Cons.IH by (cases p) simp_all
  qed
qed

lemma Use_fresh: "fresh (after (Use p viders s)) = fresh s"
proof (induction viders arbitrary: s)
  case Nil
  show ?case by simp
next
  case (Cons provider viders)
  show ?case
  proof (cases provider)
    case None
    then show ?thesis by simp
  next
    case (Some v)
    then show ?thesis using Cons.IH by (cases p) simp_all
  qed
qed

text \<open>A map object other than the receiver's keeps its contents.\<close>

lemma Use_heap_other: "p \<noteq> Some m \<Longrightarrow> heap (after (Use p viders s)) m = heap s m"
proof (induction viders arbitrary: s)
  case Nil
  show ?case by simp
next
  case (Cons provider viders)
  show ?case
  proof (cases provider)
    case None
    then show ?thesis by simp
  next
    case (Some v)
    then show ?thesis using Cons.IH Cons.prems by (cases p) simp_all
  qed
qed

text \<open>A key that none of the arguments reports keeps its entry, in every map object.\<close>

lemma Use_heap_unnamed:
  "\<forall>v \<in> set viders. Name v \<noteq> Inr n \<Longrightarrow> heap (after (Use p viders s)) m n = heap s m n"
proof (induction viders arbitrary: s)
  case Nil
  show ?case by simp
next
  case (Cons provider viders)
  show ?case
  proof (cases provider)
    case None
    then show ?thesis by simp
  next
    case (Some v)
    then show ?thesis using Cons.IH Cons.prems by (cases p) auto
  qed
qed

text \<open>
  When the call returns, the entry under \<open>n\<close> in the receiver's map is the last
  argument reporting \<open>n\<close>, and the old entry when there is none.
\<close>

lemma Use_heap_named:
  "Use (Some m) viders s = Returns s' \<Longrightarrow>
   heap s' m n = (if filter (\<lambda>v. Name v = Inr n) viders = [] then heap s m n
                  else Some (last (filter (\<lambda>v. Name v = Inr n) viders)))"
proof (induction viders arbitrary: s)
  case Nil
  then show ?case by simp
next
  case (Cons provider viders)
  show ?case
  proof (cases provider)
    case None
    then show ?thesis using Cons.prems by simp
  next
    case (Some v)
    then show ?thesis using Cons.IH Cons.prems by auto
  qed
qed

text \<open>Whether \<open>Use\<close> returns depends on the receiver and the arguments, not on the store.\<close>

lemma Use_returns_again:
  "Use p viders s = Returns s' \<Longrightarrow> \<exists>t'. Use p viders t = Returns t'"
proof (induction viders arbitrary: s t)
  case Nil
  then show ?case by simp
next
  case (Cons provider viders)
  show ?case
  proof (cases provider)
    case None
    then show ?thesis using Cons.prems by simp
  next
    case (Some v)
    then show ?thesis using Cons.IH Cons.prems by (cases p) auto
  qed
qed

lemma Use_twice:
  assumes "Use p viders s = Returns s'"
  shows "Use p viders s' = Returns s'"
proof -
  obtain t where t: "Use p viders s' = Returns t"
    using Use_returns_again [OF assms] by blast
  have c: "cells t = cells s'"
    using Use_cells [of p viders s'] t by simp
  have f: "fresh t = fresh s'"
    using Use_fresh [of p viders s'] t by simp
  have h: "heap t m = heap s' m" for m
  proof (cases "p = Some m")
    case False
    then show ?thesis using Use_heap_other [of p m viders s'] t by simp
  next
    case True
    show ?thesis
    proof
      fix n
      show "heap t m n = heap s' m n"
        using Use_heap_named [of m viders s' t n] Use_heap_named [of m viders s s' n]
          t assms True by simp
    qed
  qed
  have "heap t = heap s'" using h by (rule ext)
  with c f have "t = s'" by simp
  with t show ?thesis by simp
qed

section \<open>Registering\<close>

text \<open>
  C6. \<^verbatim>\<open>Use\<close> is idempotent: two calls in succession with the same arguments have the
  outcome of one call, store included. Within one call that returns, the entry under a
  name that some argument reports is the last argument reporting that name.
\<close>

theorem Use_idempotent_last_wins:
  "and_then (Use p viders s) (Use p viders) = Use p viders s
   \<and> (Use (Some m) viders s = Returns s' \<longrightarrow> filter (\<lambda>v. Name v = Inr n) viders \<noteq> [] \<longrightarrow>
        heap s' m n = Some (last (filter (\<lambda>v. Name v = Inr n) viders)))"
proof
  show "and_then (Use p viders s) (Use p viders) = Use p viders s"
  proof (cases "Use p viders s")
    case (Returns s1)
    then show ?thesis using Use_twice [of p viders s s1] by simp
  next
    case (Panics e s1)
    then show ?thesis by simp
  qed
next
  show "Use (Some m) viders s = Returns s' \<longrightarrow> filter (\<lambda>v. Name v = Inr n) viders \<noteq> [] \<longrightarrow>
        heap s' m n = Some (last (filter (\<lambda>v. Name v = Inr n) viders))"
    using Use_heap_named [of m viders s s' n] by simp
qed

theorem Use_idempotent_last_wins_witness:
  "Use (Some 0) [Some github, Some google, Some github2] init
     = Returns (after (Use (Some 0) [Some github, Some google, Some github2] init))
   \<and> filter (\<lambda>v. Name v = Inr ''github'') [Some github, Some google, Some github2]
       = [Some github, Some github2]
   \<and> heap (after (Use (Some 0) [Some github, Some google, Some github2] init)) 0 ''github''
       = Some (Some github2)
   \<and> and_then (Use (Some 0) [Some github, Some google, Some github2] init)
        (Use (Some 0) [Some github, Some google, Some github2])
       = Use (Some 0) [Some github, Some google, Some github2] init"
proof -
  let ?vs = "[Some github, Some google, Some github2]"
  have r: "Use (Some 0) ?vs init = Returns (after (Use (Some 0) ?vs init))"
    by (simp add: init_def make_def providers_def)
  have f: "filter (\<lambda>v. Name v = Inr ''github'') ?vs = [Some github, Some github2]"
    by (simp add: github_def google_def github2_def)
  from Use_idempotent_last_wins [of "Some 0" ?vs init 0 "after (Use (Some 0) ?vs init)" "''github''"]
    r f show ?thesis by simp
qed

text \<open>
  C10. \<^verbatim>\<open>Use\<close> changes only entries of the receiver's map whose key is the name of one
  of its arguments: the entry under every other name is as before, every other map object
  is as before, and no variable is assigned. This holds of the store the call leaves
  whether it returns or panics.
\<close>

theorem Use_frame:
  "cells (after (Use p viders s)) = cells s
   \<and> (p \<noteq> Some m \<longrightarrow> heap (after (Use p viders s)) m = heap s m)
   \<and> ((\<forall>v \<in> set viders. Name v \<noteq> Inr n) \<longrightarrow> heap (after (Use p viders s)) m n = heap s m n)"
  using Use_cells [of p viders s] Use_heap_other [of p m viders s]
    Use_heap_unnamed [of viders n p s m] by simp

theorem Use_frame_witness:
  "Name (Some github) \<noteq> Inr ''google'' \<and> Name (Some github2) \<noteq> Inr ''google''
   \<and> heap (after (Use (Some 0) [Some google] init)) 0 ''google'' = Some (Some google)
   \<and> heap (after (Use (Some 0) [Some github, Some github2]
         (after (Use (Some 0) [Some google] init)))) 0 ''google'' = Some (Some google)
   \<and> Some (0::nat) \<noteq> Some 1
   \<and> heap (after (Use (Some 0) [Some github] with_local_registry)) 1
       = heap with_local_registry 1"
proof -
  have a: "Name (Some github) \<noteq> Inr ''google'' \<and> Name (Some github2) \<noteq> Inr ''google''"
    by (simp add: github_def github2_def)
  have b: "heap (after (Use (Some 0) [Some google] init)) 0 ''google'' = Some (Some google)"
    by (simp add: init_def make_def providers_def google_def)
  from Use_frame [of "Some 0" "[Some github, Some github2]"
      "after (Use (Some 0) [Some google] init)" 0 "''google''"]
    Use_frame [of "Some 0" "[Some github]" with_local_registry 1 "''google''"] a b
  show ?thesis by simp
qed

section \<open>The shared registry\<close>

text \<open>
  On the registry of the package-level variable a lookup finds what was registered, and
  finds nothing after \<^verbatim>\<open>ClearProviders\<close>.
\<close>

lemma GetProvider_after_UseProviders:
  assumes "GetProviders s = Some g"
  shows "\<exists>s'. UseProviders [Some v] s = Returns s' \<and> GetProvider (key v) s' = (Some v, None)"
  using assms by (simp add: UseProviders_def GetProviders_def GetProvider_def Get_def)

lemma GetProvider_after_ClearProviders:
  "\<exists>s'. ClearProviders s = Returns s'
     \<and> GetProvider n s' = (None, Some (Error (''no provider for '' @ n @ '' exists'')))"
  by (simp add: ClearProviders_def GetProvider_def Get_def make_def)

lemmas example_defs = init_def make_def providers_def github_def google_def github2_def
  local_registry_def with_local_registry_def registered_twice_def local_variable_def
  cleared_local_def UseProviders_def GetProviders_def GetProvider_def ClearProviders_def Get_def

text \<open>
  C2. The package-level functions are the methods applied to the registry that the
  package-level variable holds: \<^verbatim>\<open>UseProviders\<close> is \<^verbatim>\<open>Use\<close> and \<^verbatim>\<open>GetProvider\<close> is
  \<^verbatim>\<open>Get\<close> on the map \<^verbatim>\<open>GetProviders()\<close> returns, and \<^verbatim>\<open>ClearProviders\<close> is \<^verbatim>\<open>Clear\<close>
  on the variable. From the initial store, after \<^verbatim>\<open>UseProviders(github, google)\<close> the map
  \<^verbatim>\<open>GetProviders()\<close> returns has exactly the keys "github" and "google"; after
  \<^verbatim>\<open>UseProviders(github2)\<close>, a second object named "github", \<^verbatim>\<open>GetProvider("github")\<close>
  returns that second object and no error.
\<close>

theorem package_functions_on_shared_registry:
  "UseProviders viders s = Use (GetProviders s) viders s
   \<and> GetProvider name s = Get (GetProviders s) name s
   \<and> ClearProviders s = Clear (Some providers) s
   \<and> (\<exists>s1 g. UseProviders [Some github, Some google] init = Returns s1
         \<and> GetProviders s1 = Some g \<and> dom (heap s1 g) = {''github'', ''google''}
         \<and> (\<exists>s2. UseProviders [Some github2] s1 = Returns s2
               \<and> GetProvider ''github'' s2 = (Some github2, None) \<and> github2 \<noteq> github))"
  by (simp add: example_defs insert_commute)

section \<open>Lookups through a registry of the caller's own\<close>

text \<open>
  C1, evaluated. With \<^verbatim>\<open>p := Providers{}\<close> and nothing in the shared registry,
  \<^verbatim>\<open>p.Use(github)\<close> returns and \<open>p\<close> holds \<open>github\<close> under "github", yet
  \<^verbatim>\<open>p.Get("github")\<close> returns nil and the error "no provider for github exists": the
  lookup went to the shared registry.
\<close>

theorem Get_misses_provider_of_local_registry:
  "returns (Use (Some local_registry) [Some github] with_local_registry)
   \<and> index (Some local_registry) ''github''
        (after (Use (Some local_registry) [Some github] with_local_registry)) = Some github
   \<and> Get (Some local_registry) ''github''
        (after (Use (Some local_registry) [Some github] with_local_registry))
      = (None, Some (Error ''no provider for github exists''))"
  by (simp add: example_defs)

text \<open>
  C3, evaluated. With \<open>github\<close> in the shared registry, \<^verbatim>\<open>p.Use(github)\<close> and then
  \<^verbatim>\<open>p.Use(github2)\<close> on the caller's registry \<open>p\<close> return and leave \<open>p\<close> with the
  single key "github", bound to \<open>github2\<close>; \<^verbatim>\<open>p.Get("github")\<close> returns \<open>github\<close>,
  the first object, from the shared registry.
\<close>

theorem Get_returns_first_of_local_registry:
  "returns registered_twice
   \<and> dom (heap (after registered_twice) local_registry) = {''github''}
   \<and> index (Some local_registry) ''github'' (after registered_twice) = Some github2
   \<and> Get (Some local_registry) ''github'' (after registered_twice) = (Some github, None)
   \<and> github \<noteq> github2"
  by (simp add: example_defs)

text \<open>
  C4, evaluated. With \<open>github\<close> in the shared registry and \<^verbatim>\<open>var p Providers\<close>,
  \<^verbatim>\<open>p.Clear()\<close> returns and leaves \<open>p\<close> an empty map; \<^verbatim>\<open>p.Get("github")\<close> returns
  \<open>github\<close> and no error, from the shared registry.
\<close>

theorem Get_finds_after_Clear_of_local_registry:
  "returns cleared_local
   \<and> cells (after cleared_local) local_variable = Some 1
   \<and> heap (after cleared_local) 1 = Map.empty
   \<and> Get (cells (after cleared_local) local_variable) ''github'' (after cleared_local)
      = (Some github, None)"
  by (simp add: example_defs)

end
